theory Spec2Isabelle
  imports Complex_Main
begin

section \<open>The stock server (server.mjs)\<close>

text \<open>
  The server polls a third-party JSON endpoint, derives three boolean stock flags from two
  counters of the response and serves them through a one-shot endpoint and a server-sent
  event stream. Everything the JavaScript takes from its runtime is an explicit input of the
  model: the readings of the clock, the draws of the random number generator, the behaviour
  of the upstream server, and the order in which the event loop delivers events to a
  streaming connection.
\<close>

subsection \<open>JavaScript values\<close>

datatype js_error = FetchError | AbortError | SyntaxError | TypeError

text \<open>
  A JavaScript number is a double. Only the remainder by 2 and a comparison with 0 or 1 are
  ever computed, and both are exact on a double whose value is an integer: such a double is
  \<open>Integral n\<close>. Every other number (a fractional value, an infinity from an
  overflowing literal, NaN from a failed coercion) is \<open>NonIntegral\<close>: its remainder by 2 is
  again fractional or NaN, and is never strictly equal to 0 or 1.
\<close>

datatype jsnum = Integral int | NonIntegral

datatype json =
    JNull
  | JBool bool
  | JNum jsnum
  | JStr string
  | JArr "json list"
  | JObj "(string \<times> json) list"

text \<open>
  \<open>repo.key\<close> for the two keys the server reads. Reading a property of \<open>null\<close> throws a
  TypeError; an object yields the value of the last member of that name (as
  \<open>JSON.parse\<close> keeps it) or \<open>undefined\<close>, here \<open>None\<close>; a boolean, number, string or
  array has neither property.
\<close>

fun get_prop :: "json \<Rightarrow> string \<Rightarrow> js_error + json option" where
  "get_prop JNull k = Inl TypeError"
| "get_prop (JObj kvs) k = Inr (map_of (rev kvs) k)"
| "get_prop v k = Inr None"

text \<open>\<open>v ?? d\<close>: the default replaces \<open>undefined\<close> and \<open>null\<close> only.\<close>

fun nullish :: "json option \<Rightarrow> json \<Rightarrow> json" where
  "nullish None d = d"
| "nullish (Some JNull) d = d"
| "nullish (Some v) d = v"

text \<open>
  The coercion of an operand of \<open>%\<close> to a number starts by turning an object or an array
  into a primitive value, and that can throw. A parsed object holds no function, so its
  own members \<open>valueOf\<close> and \<open>toString\<close> are skipped as not callable; the inherited
  \<open>valueOf\<close> returns the object itself, and the inherited \<open>toString\<close>, which gives
  \<open>[object Object]\<close>, is reached only when the object has no member \<open>toString\<close> of its
  own. With such a member no method yields a primitive value and a TypeError is thrown. An
  array is joined from the strings of its elements (the empty string for \<open>null\<close>), so
  it throws when one of its elements does.
\<close>

fun no_primitive :: "json \<Rightarrow> bool" where
  "no_primitive (JObj kvs) = (''toString'' \<in> set (map fst kvs))"
| "no_primitive (JArr xs) = (\<exists>x\<in>set xs. no_primitive x)"
| "no_primitive v = False"

text \<open>
  The coercion itself. The string of an object that has one is \<open>[object Object]\<close>, which
  reads as NaN. What number the runtime reads from a string, or from the string of an
  array, is the parameter \<open>co\<close>; reading a string as a number never throws.
\<close>

fun to_number :: "(json \<Rightarrow> jsnum) \<Rightarrow> json \<Rightarrow> js_error + jsnum" where
  "to_number co JNull = Inr (Integral 0)"
| "to_number co (JBool b) = Inr (Integral (if b then 1 else 0))"
| "to_number co (JNum n) = Inr n"
| "to_number co (JStr s) = Inr (co (JStr s))"
| "to_number co (JArr xs) =
     (if no_primitive (JArr xs) then Inl TypeError else Inr (co (JArr xs)))"
| "to_number co (JObj kvs) =
     (if no_primitive (JObj kvs) then Inl TypeError else Inr NonIntegral)"

text \<open>\<open>x % m\<close> for an integer literal \<open>m\<close>: the remainder takes the sign of \<open>x\<close>.\<close>

fun js_rem :: "jsnum \<Rightarrow> int \<Rightarrow> jsnum" where
  "js_rem (Integral n) m =
     (if m = 0 then NonIntegral else Integral (sgn n * (\<bar>n\<bar> mod \<bar>m\<bar>)))"
| "js_rem NonIntegral m = NonIntegral"

text \<open>\<open>x === k\<close> for an integer literal \<open>k\<close>.\<close>

fun strict_eq :: "jsnum \<Rightarrow> int \<Rightarrow> bool" where
  "strict_eq (Integral n) k = (n = k)"
| "strict_eq NonIntegral k = False"

subsection \<open>Data model\<close>

text \<open>
  A timestamp is the clock reading in milliseconds; \<open>toISOString\<close> renders it and is not
  modelled.
\<close>

record stock_item =
  category :: string
  item :: string
  inStock :: bool
  lastSeen :: nat

record snapshot =
  updatedAt :: nat
  items :: "stock_item list"

text \<open>
  \<open>fetch\<close> resolves when the head of the response has arrived; the body is read later,
  by \<open>response.json()\<close>. Left alone, that read settles after so many milliseconds, with
  the parsed body or with the exception thrown for a body that is not JSON, or it never
  settles (the upstream stops sending).
\<close>

datatype body_read = BodySettles nat "js_error + json" | BodyStalls

text \<open>
  What \<open>fetch\<close> resolves with: the status line, which the server never reads, and the
  body still to be read.
\<close>

record response =
  status :: nat
  body :: body_read

datatype settle = Responds response | Fails

text \<open>
  The upstream server, for one call: left alone, the call settles after so many
  milliseconds, or never does.
\<close>

datatype upstream = Settles nat settle | Never

subsection \<open>The runtime\<close>

text \<open>
  The calls of the runtime that the provider makes or causes: \<open>setTimeout\<close> returning a
  timer for a delay in milliseconds, \<open>clearTimeout\<close> of a timer, a timer firing,
  \<open>controller.abort()\<close>, and \<open>fetch\<close> of a URL with its \<open>User-Agent\<close> header.
\<close>

datatype action =
    SetTimeout nat nat
  | ClearTimeout nat
  | TimerFired nat
  | Abort
  | Fetch string string

text \<open>
  \<open>clock\<close> gives the reading of each \<open>new Date()\<close> in the order of the reads and
  \<open>rand\<close> the result of each \<open>Math.random()\<close>; \<open>net\<close> is the behaviour of the upstream
  for each call. \<open>pending\<close> holds the timers that are set and have neither fired nor been
  cleared, \<open>trace\<close> the runtime calls made so far, \<open>waited\<close> the milliseconds spent
  waiting for the upstream: for \<open>fetch\<close> to settle and for the body to be read.
\<close>

record world =
  clock :: "nat \<Rightarrow> nat"
  reads :: nat
  rand :: "nat \<Rightarrow> real"
  draws :: nat
  net :: "nat \<Rightarrow> upstream"
  calls :: nat
  coerce :: "json \<Rightarrow> jsnum"
  next_timer :: nat
  pending :: "nat list"
  trace :: "action list"
  waited :: nat

definition date_now :: "world \<Rightarrow> nat \<times> world" where
  "date_now w = (clock w (reads w), w\<lparr>reads := Suc (reads w)\<rparr>)"

definition math_random :: "world \<Rightarrow> real \<times> world" where
  "math_random w = (rand w (draws w), w\<lparr>draws := Suc (draws w)\<rparr>)"

definition setTimeout :: "nat \<Rightarrow> world \<Rightarrow> nat \<times> world" where
  "setTimeout ms w =
     (next_timer w,
      w\<lparr>next_timer := Suc (next_timer w),
        pending := next_timer w # pending w,
        trace := trace w @ [SetTimeout (next_timer w) ms]\<rparr>)"

definition clearTimeout :: "nat \<Rightarrow> world \<Rightarrow> world" where
  "clearTimeout i w =
     w\<lparr>pending := removeAll i (pending w), trace := trace w @ [ClearTimeout i]\<rparr>"

text \<open>
  The timer \<open>i\<close> fires: it is no longer pending, and its callback calls
  \<open>controller.abort()\<close>.
\<close>

definition abort_timer_fires :: "nat \<Rightarrow> world \<Rightarrow> world" where
  "abort_timer_fires i w =
     w\<lparr>pending := removeAll i (pending w), trace := trace w @ [TimerFired i, Abort]\<rparr>"

text \<open>
  \<open>await fetch(url, {signal, headers})\<close> while the timer \<open>i\<close> of \<open>ms\<close> milliseconds is
  running. The call is given no timeout of its own. If the upstream settles before the timer
  fires, the promise resolves with the response or rejects with the network error.
  Otherwise the timer fires first, the signal is aborted and the promise rejects with an
  AbortError.
\<close>

definition fetch_signal ::
  "string \<Rightarrow> nat \<Rightarrow> nat \<Rightarrow> world \<Rightarrow> (js_error + response) \<times> world" where
  "fetch_signal url i ms w =
     (let w1 = w\<lparr>calls := Suc (calls w), trace := trace w @ [Fetch url ''gag-stock-clone'']\<rparr>;
          timeout = (Inl AbortError, abort_timer_fires i (w1\<lparr>waited := waited w1 + ms\<rparr>))
      in case net w (calls w) of
           Never \<Rightarrow> timeout
         | Settles t s \<Rightarrow>
             if t < ms then
               (case s of Responds r \<Rightarrow> Inr r | Fails \<Rightarrow> Inl FetchError,
                w1\<lparr>waited := waited w1 + t\<rparr>)
             else timeout)"

subsection \<open>The snapshot provider\<close>

definition fetchWithTimeout ::
  "string \<Rightarrow> nat \<Rightarrow> world \<Rightarrow> (js_error + response) \<times> world" where
  "fetchWithTimeout url ms w =
     (let (i, w1) = setTimeout ms w
      in case fetch_signal url i ms w1 of
           (Inr resp, w2) \<Rightarrow> (Inr resp, clearTimeout i w2)
         | (Inl e, w2) \<Rightarrow> (Inl e, clearTimeout i w2))"

definition simulateStock :: "world \<Rightarrow> stock_item list \<times> world" where
  "simulateStock w =
     (let (now, w1) = date_now w;
          (r1, w2) = math_random w1;
          (r2, w3) = math_random w2;
          (r3, w4) = math_random w3
      in ([\<lparr>category = ''Seeds'', item = ''Sunflower Seed'', inStock = (r1 > 1/2), lastSeen = now\<rparr>,
           \<lparr>category = ''Eggs'', item = ''Chicken Egg'', inStock = (r2 > 1/2), lastSeen = now\<rparr>,
           \<lparr>category = ''Gear'', item = ''Watering Can'', inStock = (r3 > 1/2), lastSeen = now\<rparr>],
          w4))"

definition repo_url :: string where
  "repo_url = ''https://api.github.com/repos/vercel/next.js''"

text \<open>
  The \<open>try\<close> block of \<open>fetchMockStock\<close>: \<open>Inl\<close> is the exception it throws, \<open>None\<close>
  a block that never completes. The timer of \<open>fetchWithTimeout\<close> is cleared when
  \<open>fetch\<close> has resolved, so \<open>await response.json()\<close> runs under no timer: it takes
  what the body takes, and does not return when the body stalls. The array is built from
  left to right: the property of \<open>repo\<close> is read and the count coerced by \<open>%\<close> for the
  first item, then for the second.
\<close>

definition fetchMockStock_try ::
  "world \<Rightarrow> ((js_error + stock_item list) \<times> world) option" where
  "fetchMockStock_try w =
     (case fetchWithTimeout repo_url 2000 w of
        (Inl e, w1) \<Rightarrow> Some (Inl e, w1)
      | (Inr resp, w1) \<Rightarrow>
          (case body resp of
             BodyStalls \<Rightarrow> None
           | BodySettles d (Inl e) \<Rightarrow> Some (Inl e, w1\<lparr>waited := waited w1 + d\<rparr>)
           | BodySettles d (Inr repo) \<Rightarrow>
               let (now, w2) = date_now (w1\<lparr>waited := waited w1 + d\<rparr>)
               in (case get_prop repo ''stargazers_count'' of
                     Inl e \<Rightarrow> Some (Inl e, w2)
                   | Inr stars \<Rightarrow>
               (case to_number (coerce w2) (nullish stars (JNum (Integral 0))) of
                     Inl e \<Rightarrow> Some (Inl e, w2)
                   | Inr n1 \<Rightarrow>
               (case get_prop repo ''open_issues_count'' of
                     Inl e \<Rightarrow> Some (Inl e, w2)
                   | Inr issues \<Rightarrow>
               (case to_number (coerce w2) (nullish issues (JNum (Integral 0))) of
                     Inl e \<Rightarrow> Some (Inl e, w2)
                   | Inr n2 \<Rightarrow>
                       Some (Inr [\<lparr>category = ''Seeds'', item = ''Sunflower Seed'',
                                  inStock = strict_eq (js_rem n1 2) 0, lastSeen = now\<rparr>,
                                 \<lparr>category = ''Eggs'', item = ''Chicken Egg'',
                                  inStock = strict_eq (js_rem n2 2) 1, lastSeen = now\<rparr>,
                                 \<lparr>category = ''Gear'', item = ''Watering Can'',
                                  inStock = True, lastSeen = now\<rparr>],
                             w2)))))))"

text \<open>
  The \<open>catch\<close> clause answers every exception with the local placeholder. A \<open>try\<close>
  block that never completes leaves the call pending for ever.
\<close>

definition fetchMockStock :: "world \<Rightarrow> (stock_item list \<times> world) option" where
  "fetchMockStock w =
     (case fetchMockStock_try w of
        None \<Rightarrow> None
      | Some (Inr its, w1) \<Rightarrow> Some (its, w1)
      | Some (Inl e, w1) \<Rightarrow> Some (simulateStock w1))"

subsection \<open>The one-shot endpoint\<close>

text \<open>
  \<open>res.json\<close> sends its argument with status 200. While the call of the provider is
  pending nothing is sent: \<open>None\<close> is a request that is never answered.
\<close>

record reply =
  code :: nat
  sent :: snapshot

definition api_stock :: "world \<Rightarrow> (reply \<times> world) option" where
  "api_stock w =
     (case fetchMockStock w of
        None \<Rightarrow> None
      | Some (its, w1) \<Rightarrow>
          let (t, w2) = date_now w1
          in Some (\<lparr>code = 200, sent = \<lparr>updatedAt = t, items = its\<rparr>\<rparr>, w2))"

subsection \<open>The streaming endpoint\<close>

text \<open>
  One connection to \<open>/api/stock/stream\<close>. The handler and its \<open>tick\<close> loop run until
  they reach an \<open>await\<close>; from there the event loop resumes them. \<open>phase\<close> is the
  \<open>await\<close> at which \<open>tick\<close> is suspended, \<open>active\<close> the flag the \<open>close\<close> listener
  clears, and \<open>out\<close> what the connection has done so far, in order: the calls of the
  provider it has started, the chunks it has written to the response, the waits it has
  begun, and the disconnects of the client it has been told of.
\<close>

datatype chunk = Text string | Data snapshot

datatype entry = Head nat | ProviderCalled | Write chunk | Sleep nat | Disconnected

datatype phase = NotStarted | AwaitProvider | AwaitTimer | Finished

record conn =
  active :: bool
  phase :: phase
  out :: "entry list"

text \<open>
  \<open>tick\<close>, from the head of \<open>while (active)\<close> to its next \<open>await\<close>: the loop either
  starts the next call of \<open>fetchMockStock\<close> and suspends on it, or ends. What \<open>tick\<close>
  does when it is resumed is part of \<open>step\<close> below.
\<close>

definition tick :: "conn \<Rightarrow> conn" where
  "tick c =
     (if active c then c\<lparr>phase := AwaitProvider, out := out c @ [ProviderCalled]\<rparr>
      else c\<lparr>phase := Finished\<rparr>)"

text \<open>The handler: it writes the head, sets the flag and calls \<open>tick\<close>.\<close>

definition api_stock_stream :: conn where
  "api_stock_stream = tick \<lparr>active = True, phase = NotStarted, out = [Head 200]\<rparr>"

text \<open>
  What the event loop can deliver to the connection: the client disconnects, the pending
  call of the provider settles, the ten-second timer fires. A settled call resumes \<open>tick\<close>
  after its first \<open>await\<close>: it reads the clock, writes the two chunks of one event and
  starts the wait, without looking at the flag. A timer that fires resumes it at the loop
  head. An event for which \<open>tick\<close> is not waiting changes nothing, and neither does the
  settling of a call that never settles. The second chunk is \<open>data:\<close>, the JSON text of
  the snapshot and an empty line; it is kept as the snapshot.
\<close>

datatype event = Close | ProviderSettled | TimerElapsed

definition stock_line :: string where
  "stock_line = ''event: stock'' @ [CHR 0x0A]"

fun step :: "event \<Rightarrow> conn \<times> world \<Rightarrow> conn \<times> world" where
  "step Close (c, w) = (c\<lparr>active := False, out := out c @ [Disconnected]\<rparr>, w)"
| "step ProviderSettled (c, w) =
     (if phase c = AwaitProvider then
        (case fetchMockStock w of
           None \<Rightarrow> (c, w)
         | Some (its, w1) \<Rightarrow>
             let (t, w2) = date_now w1;
                 payload = \<lparr>updatedAt = t, items = its\<rparr>
             in (c\<lparr>phase := AwaitTimer,
                   out := out c @ [Write (Text stock_line), Write (Data payload), Sleep 10000]\<rparr>,
                 w2))
      else (c, w))"
| "step TimerElapsed (c, w) =
     (if phase c = AwaitTimer then (tick c, w) else (c, w))"

fun run :: "event list \<Rightarrow> conn \<times> world \<Rightarrow> conn \<times> world" where
  "run [] s = s"
| "run (e # es) s = run es (step e s)"

subsection \<open>Runs, logs and sample inputs\<close>

text \<open>
  The functions below do not model code of the server; the statements of the theorems are
  written with them. \<open>served\<close> is the list of the snapshots written to a connection,
  \<open>written\<close> the list of its chunks, and \<open>after_close\<close> what a connection did after it was
  first told of a disconnect.
\<close>

fun served :: "entry list \<Rightarrow> snapshot list" where
  "served [] = []"
| "served (Write (Data p) # es) = p # served es"
| "served (e # es) = served es"

fun written :: "entry list \<Rightarrow> chunk list" where
  "written [] = []"
| "written (Write c # es) = c # written es"
| "written (e # es) = written es"

fun after_close :: "entry list \<Rightarrow> entry list" where
  "after_close [] = []"
| "after_close (Disconnected # es) = es"
| "after_close (e # es) = after_close es"



text \<open>
  A fresh runtime in which the clock advances by one millisecond from one read to the
  next, every random draw is \<open>r\<close>, the upstream behaves as \<open>u\<close> and every string or
  array that is read as a number gives NaN (the sample bodies hold no numeric string); an
  upstream that answers after 120 ms with a JSON body that takes 5 ms to read;
  a body with the two counters; the snapshot that the one-shot endpoint sends for the
  counters 4 and 5 in this runtime.
\<close>

definition world0 :: "upstream \<Rightarrow> real \<Rightarrow> world" where
  "world0 u r =
     \<lparr>clock = (\<lambda>k. 1000 + k), reads = 0, rand = (\<lambda>k. r), draws = 0, net = (\<lambda>k. u),
      calls = 0, coerce = (\<lambda>v. NonIntegral), next_timer = 0, pending = [], trace = [],
      waited = 0\<rparr>"

definition replies :: "nat \<Rightarrow> json \<Rightarrow> upstream" where
  "replies st j = Settles 120 (Responds \<lparr>status = st, body = BodySettles 5 (Inr j)\<rparr>)"

definition counts :: "int \<Rightarrow> int \<Rightarrow> json" where
  "counts p s =
     JObj [(''stargazers_count'', JNum (Integral p)), (''open_issues_count'', JNum (Integral s))]"

definition sample_snapshot :: snapshot where
  "sample_snapshot =
     \<lparr>updatedAt = 1001, items =
       [\<lparr>category = ''Seeds'', item = ''Sunflower Seed'', inStock = True, lastSeen = 1000\<rparr>,
        \<lparr>category = ''Eggs'', item = ''Chicken Egg'', inStock = True, lastSeen = 1000\<rparr>,
        \<lparr>category = ''Gear'', item = ''Watering Can'', inStock = True, lastSeen = 1000\<rparr>]\<rparr>"

text \<open>
  The upstream behaviours on which the \<open>try\<close> block ends in an exception: the call is
  aborted by the timer, \<open>fetch\<close> rejects, reading the body throws, the body is \<open>null\<close>,
  or one of the two counts has no primitive value. An upstream stalls when the head of its
  response arrives in time and the body never does.
\<close>

definition exceptional :: "upstream \<Rightarrow> bool" where
  "exceptional u \<longleftrightarrow>
     u = Never \<or>
     (\<exists>t s. u = Settles t s \<and> 2000 \<le> t) \<or>
     (\<exists>t. u = Settles t Fails) \<or>
     (\<exists>t resp d e. u = Settles t (Responds resp) \<and> body resp = BodySettles d (Inl e)) \<or>
     (\<exists>t resp d repo. u = Settles t (Responds resp) \<and> body resp = BodySettles d (Inr repo) \<and>
        (repo = JNull \<or>
         (\<exists>a. get_prop repo ''stargazers_count'' = Inr a \<and>
              no_primitive (nullish a (JNum (Integral 0)))) \<or>
         (\<exists>b. get_prop repo ''open_issues_count'' = Inr b \<and>
              no_primitive (nullish b (JNum (Integral 0))))))"


text \<open>
  What holds of a connection in every state it can reach: once told of a disconnect its
  flag is cleared; since then it has started no call of the provider and written at most
  two chunks, and none while a call is pending.
\<close>

definition close_inv :: "conn \<Rightarrow> bool" where
  "close_inv c \<longleftrightarrow>
     (Disconnected \<in> set (out c) \<longrightarrow> \<not> active c) \<and>
     ProviderCalled \<notin> set (after_close (out c)) \<and>
     length (written (after_close (out c))) \<le> 2 \<and>
     (phase c = AwaitProvider \<longrightarrow> written (after_close (out c)) = [])"

section \<open>Properties of the provider\<close>

subsection \<open>What a call leaves of the runtime\<close>

lemmas runtime_defs =
  date_now_def math_random_def setTimeout_def clearTimeout_def abort_timer_fires_def
  fetch_signal_def

text \<open>\<open>fetchWithTimeout\<close>, with the runtime calls unfolded.\<close>

lemma fetchWithTimeout_eq:
  "fetchWithTimeout url ms w =
     (let i = next_timer w;
          w1 = w\<lparr>next_timer := Suc i, calls := Suc (calls w)\<rparr>;
          aborted = (Inl AbortError,
            w1\<lparr>pending := removeAll i (pending w), waited := waited w + ms,
               trace := trace w @ [SetTimeout i ms, Fetch url ''gag-stock-clone'', TimerFired i,
                                   Abort, ClearTimeout i]\<rparr>)
      in case net w (calls w) of
           Never \<Rightarrow> aborted
         | Settles t s \<Rightarrow>
             if t < ms then
               (case s of Responds r \<Rightarrow> Inr r | Fails \<Rightarrow> Inl FetchError,
                w1\<lparr>pending := removeAll i (pending w), waited := waited w + t,
                   trace := trace w @ [SetTimeout i ms, Fetch url ''gag-stock-clone'',
                                       ClearTimeout i]\<rparr>)
             else aborted)"
  by (simp add: fetchWithTimeout_def runtime_defs Let_def split: upstream.splits settle.splits)

lemma fetchWithTimeout_frame:
  assumes "fetchWithTimeout url ms w = (r, w1)"
  shows "clock w1 = clock w \<and> reads w1 = reads w \<and> rand w1 = rand w \<and> draws w1 = draws w \<and>
    coerce w1 = coerce w \<and> net w1 = net w"
  using assms
  by (auto simp: fetchWithTimeout_def runtime_defs Let_def
      split: upstream.splits settle.splits if_splits)

lemma simulateStock_eq:
  "simulateStock w =
     ([\<lparr>category = ''Seeds'', item = ''Sunflower Seed'',
        inStock = (rand w (draws w) > 1/2), lastSeen = clock w (reads w)\<rparr>,
       \<lparr>category = ''Eggs'', item = ''Chicken Egg'',
        inStock = (rand w (Suc (draws w)) > 1/2), lastSeen = clock w (reads w)\<rparr>,
       \<lparr>category = ''Gear'', item = ''Watering Can'',
        inStock = (rand w (Suc (Suc (draws w))) > 1/2), lastSeen = clock w (reads w)\<rparr>],
      w\<lparr>reads := Suc (reads w), draws := Suc (Suc (Suc (draws w)))\<rparr>)"
  by (simp add: simulateStock_def runtime_defs)

lemma try_frame:
  assumes "fetchMockStock_try w = Some (r, w1)"
  shows "clock w1 = clock w \<and> rand w1 = rand w \<and> draws w1 = draws w \<and> coerce w1 = coerce w \<and>
    net w1 = net w \<and> reads w \<le> reads w1"
  using assms
  by (auto simp: fetchMockStock_try_def date_now_def Let_def
      dest!: fetchWithTimeout_frame
      split: prod.splits sum.splits body_read.splits)

lemma try_ok:
  assumes "fetchMockStock_try w = Some (Inr its, w1)"
  shows "reads w1 = Suc (reads w) \<and>
    map lastSeen its = replicate 3 (clock w (reads w)) \<and>
    map category its = [''Seeds'', ''Eggs'', ''Gear''] \<and>
    map item its = [''Sunflower Seed'', ''Chicken Egg'', ''Watering Can''] \<and>
    inStock (its ! 2)"
  using assms
  by (auto simp: fetchMockStock_try_def date_now_def Let_def numeral_3_eq_3
      dest!: fetchWithTimeout_frame
      split: prod.splits sum.splits body_read.splits)

text \<open>
  The items of one call all carry the reading of the last clock read the call made, and
  their names do not depend on the path taken.
\<close>

lemma fetchMockStock_stamp:
  assumes "fetchMockStock w = Some (its, w1)"
  shows "clock w1 = clock w \<and> net w1 = net w \<and> reads w < reads w1 \<and>
    map lastSeen its = replicate 3 (clock w (reads w1 - 1)) \<and>
    map category its = [''Seeds'', ''Eggs'', ''Gear''] \<and>
    map item its = [''Sunflower Seed'', ''Chicken Egg'', ''Watering Can'']"
proof (cases "fetchMockStock_try w")
  case None
  with assms show ?thesis
    by (simp add: fetchMockStock_def)
next
  case (Some a)
  obtain r w0 where a: "a = (r, w0)"
    by (cases a)
  note tr = Some [unfolded a]
  note frame = try_frame [OF tr]
  show ?thesis
  proof (cases r)
    case (Inl e)
    with tr assms have "simulateStock w0 = (its, w1)"
      by (simp add: fetchMockStock_def)
    with frame show ?thesis
      by (auto simp: simulateStock_eq numeral_3_eq_3)
  next
    case (Inr its')
    with tr assms have same: "its' = its" "w0 = w1"
      by (simp_all add: fetchMockStock_def)
    from try_ok [OF tr [unfolded Inr same]] frame same show ?thesis
      by simp
  qed
qed




lemma api_stock_Some:
  "api_stock w = Some (r, w2) \<longleftrightarrow>
     (\<exists>its w1. fetchMockStock w = Some (its, w1) \<and>
        r = \<lparr>code = 200, sent = \<lparr>updatedAt = clock w1 (reads w1), items = its\<rparr>\<rparr> \<and>
        w2 = w1\<lparr>reads := Suc (reads w1)\<rparr>)"
  by (auto simp: api_stock_def date_now_def split: option.splits)




subsection \<open>The abort timer\<close>

text \<open>
  Claim C9. Whether \<open>fetch\<close> resolves or rejects, \<open>fetchWithTimeout\<close> calls
  \<open>clearTimeout\<close> on its abort timer as the last thing it does before it returns or
  rethrows, and the timer is not pending afterwards: the pending timers are those from
  before the call, without the identifier of the abort timer.
\<close>

theorem abort_timer_cleared:
  "next_timer w \<notin> set (pending (snd (fetchWithTimeout url ms w))) \<and>
   pending (snd (fetchWithTimeout url ms w)) = removeAll (next_timer w) (pending w) \<and>
   last (trace (snd (fetchWithTimeout url ms w))) = ClearTimeout (next_timer w) \<and>
   (\<exists>mid. trace (snd (fetchWithTimeout url ms w)) =
      trace w @ SetTimeout (next_timer w) ms # mid @ [ClearTimeout (next_timer w)])"
  by (simp add: fetchWithTimeout_eq Let_def split: upstream.splits settle.splits)

subsection \<open>The bound on the upstream call\<close>




lemmas sample_defs = world0_def replies_def counts_def

lemmas provider_defs =
  fetchMockStock_def fetchMockStock_try_def fetchWithTimeout_eq date_now_def simulateStock_eq


subsection \<open>Shape of a snapshot\<close>

text \<open>
  Claim C3. What the provider returns is exactly three items, Seeds/Sunflower Seed,
  Eggs/Chicken Egg and Gear/Watering Can in this order, whether they come from the response
  or from the placeholder; the one-shot endpoint sends these items.
\<close>

theorem fixed_three_items:
  "(\<forall>its w1. fetchMockStock w = Some (its, w1) \<longrightarrow>
      length its = 3 \<and>
      map category its = [''Seeds'', ''Eggs'', ''Gear''] \<and>
      map item its = [''Sunflower Seed'', ''Chicken Egg'', ''Watering Can'']) \<and>
   length (fst (simulateStock w)) = 3 \<and>
   map category (fst (simulateStock w)) = [''Seeds'', ''Eggs'', ''Gear''] \<and>
   map item (fst (simulateStock w)) = [''Sunflower Seed'', ''Chicken Egg'', ''Watering Can''] \<and>
   (\<forall>r w2. api_stock w = Some (r, w2) \<longrightarrow>
      (\<exists>w1. fetchMockStock w = Some (items (sent r), w1)))"
proof -
  have "length its = 3 \<and>
      map category its = [''Seeds'', ''Eggs'', ''Gear''] \<and>
      map item its = [''Sunflower Seed'', ''Chicken Egg'', ''Watering Can'']"
    if run: "fetchMockStock w = Some (its, w1)" for its w1
  proof -
    from fetchMockStock_stamp [OF run] have
      names: "map category its = [''Seeds'', ''Eggs'', ''Gear'']"
        "map item its = [''Sunflower Seed'', ''Chicken Egg'', ''Watering Can'']"
      by simp_all
    from names(1) have "length (map category its) = 3"
      by simp
    then have "length its = 3"
      by simp
    with names show ?thesis
      by simp
  qed
  then show ?thesis
    by (auto simp: simulateStock_eq api_stock_Some)
qed

theorem fixed_three_items_witness:
  "map_option (\<lambda>r. (length (fst r), map category (fst r), map item (fst r)))
     (fetchMockStock (world0 (replies 200 (counts 4 5)) (1/4))) =
     Some (3, [''Seeds'', ''Eggs'', ''Gear''],
           [''Sunflower Seed'', ''Chicken Egg'', ''Watering Can'']) \<and>
   map_option (\<lambda>r. (length (fst r), map category (fst r), map item (fst r)))
     (fetchMockStock (world0 Never (1/4))) =
     Some (3, [''Seeds'', ''Eggs'', ''Gear''],
           [''Sunflower Seed'', ''Chicken Egg'', ''Watering Can''])"
proof -
  obtain a b where a: "fetchMockStock (world0 (replies 200 (counts 4 5)) (1/4)) = Some (a, b)"
    by (simp add: provider_defs sample_defs)
  obtain c d where c: "fetchMockStock (world0 Never (1/4)) = Some (c, d)"
    by (simp add: provider_defs sample_defs)
  from a c fixed_three_items [of "world0 (replies 200 (counts 4 5)) (1/4)"]
    fixed_three_items [of "world0 Never (1/4)"]
  show ?thesis
    by simp
qed

subsection \<open>Exceptions are absorbed\<close>




subsection \<open>Flags derived from the response\<close>

lemma rem2_zero: "strict_eq (js_rem (Integral n) 2) 0 = even n"
  by (cases "n = 0") (auto simp: sgn_if)

lemma rem2_one: "strict_eq (js_rem (Integral n) 2) 1 = (odd n \<and> 0 \<le> n)"
  by (auto simp: sgn_if zmult_eq_1_iff odd_iff_mod_2_eq_one abs_if)

text \<open>
  Claim C1, amended. When \<open>fetch\<close> resolves and the body parses to a JSON value other than
  \<open>null\<close>, and each of the two counts, with 0 in place of a field that is missing or
  \<open>null\<close>, is an integer: item 1 is in stock exactly when the primary count is even, item 2
  exactly when the secondary count is odd and not negative (\<open>% 2 === 1\<close>), and item 3
  always. Counts 4 and 5 give true, true, true; counts 3 and 2 give false, false, true.
\<close>

theorem parity_flags:
  assumes "net w (calls w) = Settles t (Responds resp)" and "t < 2000"
    and "body resp = BodySettles d (Inr repo)"
    and "get_prop repo ''stargazers_count'' = Inr a"
    and "nullish a (JNum (Integral 0)) = JNum (Integral p)"
    and "get_prop repo ''open_issues_count'' = Inr b"
    and "nullish b (JNum (Integral 0)) = JNum (Integral s)"
  shows "map_option (\<lambda>r. map inStock (fst r)) (fetchMockStock w) =
    Some [even p, odd s \<and> 0 \<le> s, True]"
  using assms
  by (simp add: fetchMockStock_def fetchMockStock_try_def fetchWithTimeout_eq date_now_def
      Let_def rem2_zero rem2_one del: js_rem.simps strict_eq.simps)

theorem parity_flags_witness:
  "map_option (\<lambda>r. map inStock (fst r))
     (fetchMockStock (world0 (replies 200 (counts 4 5)) (1/4))) = Some [True, True, True] \<and>
   map_option (\<lambda>r. map inStock (fst r))
     (fetchMockStock (world0 (replies 200 (counts 3 2)) (1/4))) = Some [False, False, True] \<and>
   map_option (\<lambda>r. map inStock (fst r))
     (fetchMockStock (world0 (replies 200 (JObj [])) (1/4))) = Some [True, False, True]"
  using
    parity_flags [of "world0 (replies 200 (counts 4 5)) (1/4)" 120
      "\<lparr>status = 200, body = BodySettles 5 (Inr (counts 4 5))\<rparr>" 5 "counts 4 5"
      "Some (JNum (Integral 4))" 4 "Some (JNum (Integral 5))" 5]
    parity_flags [of "world0 (replies 200 (counts 3 2)) (1/4)" 120
      "\<lparr>status = 200, body = BodySettles 5 (Inr (counts 3 2))\<rparr>" 5 "counts 3 2"
      "Some (JNum (Integral 3))" 3 "Some (JNum (Integral 2))" 2]
    parity_flags [of "world0 (replies 200 (JObj [])) (1/4)" 120
      "\<lparr>status = 200, body = BodySettles 5 (Inr (JObj []))\<rparr>" 5 "JObj []" None 0 None 0]
  by (simp add: sample_defs)

text \<open>
  As first stated the claim covers every body that parses as JSON and every count. It fails
  for the body \<open>null\<close>, which parses: reading its property throws, and the placeholder is
  returned, here with item 3 out of stock. It fails for a negative odd secondary count:
  \<open>-3 % 2\<close> is \<open>-1\<close>, so item 2 is out of stock.
\<close>

theorem parity_flags_counterexample:
  "body \<lparr>status = 200, body = BodySettles 5 (Inr JNull)\<rparr> = BodySettles 5 (Inr JNull) \<and>
   map_option (\<lambda>r. map inStock (fst r))
     (fetchMockStock (world0 (replies 200 JNull) (1/4))) = Some [False, False, False] \<and>
   odd (- 3 :: int) \<and>
   map_option (\<lambda>r. map inStock (fst r))
     (fetchMockStock (world0 (replies 200 (counts 4 (- 3))) (1/4))) = Some [True, False, True]"
  by (simp add: provider_defs sample_defs)

subsection \<open>The placeholder\<close>

lemma to_number_throws: "no_primitive v \<Longrightarrow> to_number co v = Inl TypeError"
  by (cases v) simp_all

lemma to_number_value: "\<not> no_primitive v \<Longrightarrow> \<exists>n. to_number co v = Inr n"
  by (cases v) simp_all

lemma get_prop_value: "repo \<noteq> JNull \<Longrightarrow> \<exists>a. get_prop repo k = Inr a"
  by (cases repo) simp_all

lemma try_parsed:
  assumes "net w (calls w) = Settles t (Responds resp)" and "t < 2000"
    and "body resp = BodySettles d (Inr repo)"
  shows "(\<exists>e w1. fetchMockStock_try w = Some (Inl e, w1)) \<longleftrightarrow>
    repo = JNull \<or>
    (\<exists>a. get_prop repo ''stargazers_count'' = Inr a \<and>
         no_primitive (nullish a (JNum (Integral 0)))) \<or>
    (\<exists>b. get_prop repo ''open_issues_count'' = Inr b \<and>
         no_primitive (nullish b (JNum (Integral 0))))"
proof (cases "repo = JNull")
  case True
  with assms show ?thesis
    by (simp add: fetchMockStock_try_def fetchWithTimeout_eq date_now_def Let_def)
next
  case False
  from get_prop_value [OF False] obtain a b where
    ab: "get_prop repo ''stargazers_count'' = Inr a" "get_prop repo ''open_issues_count'' = Inr b"
    by blast
  show ?thesis
  proof (cases "no_primitive (nullish a (JNum (Integral 0)))")
    case True
    with assms ab show ?thesis
      by (simp add: fetchMockStock_try_def fetchWithTimeout_eq date_now_def Let_def
          to_number_throws)
  next
    case na: False
    from to_number_value [OF na]
    have n1: "\<And>co. \<exists>n. to_number co (nullish a (JNum (Integral 0))) = Inr n"
      by blast
    show ?thesis
    proof (cases "no_primitive (nullish b (JNum (Integral 0)))")
      case True
      with assms ab False na n1 show ?thesis
        by (auto simp: fetchMockStock_try_def fetchWithTimeout_eq date_now_def Let_def
            to_number_throws split: sum.splits)
    next
      case nb: False
      from to_number_value [OF nb]
      have n2: "\<And>co. \<exists>n. to_number co (nullish b (JNum (Integral 0))) = Inr n"
        by blast
      from assms ab False na nb show ?thesis
        using n1 [of "coerce w"] n2 [of "coerce w"]
        by (auto simp: fetchMockStock_try_def fetchWithTimeout_eq date_now_def Let_def
            split: sum.splits)
    qed
  qed
qed

text \<open>The \<open>try\<close> block throws on the exceptional upstream behaviours and on no other.\<close>

lemma try_raises_iff:
  "(\<exists>e w1. fetchMockStock_try w = Some (Inl e, w1)) \<longleftrightarrow> exceptional (net w (calls w))"
proof (cases "net w (calls w)")
  case Never
  then show ?thesis
    by (simp add: exceptional_def fetchMockStock_try_def fetchWithTimeout_eq Let_def)
next
  case (Settles t s)
  show ?thesis
  proof (cases "t < 2000")
    case False
    with Settles show ?thesis
      by (simp add: exceptional_def fetchMockStock_try_def fetchWithTimeout_eq Let_def)
  next
    case True
    show ?thesis
    proof (cases s)
      case Fails
      with Settles True show ?thesis
        by (simp add: exceptional_def fetchMockStock_try_def fetchWithTimeout_eq Let_def)
    next
      case (Responds resp)
      show ?thesis
      proof (cases "body resp")
        case BodyStalls
        with Settles True Responds show ?thesis
          by (simp add: exceptional_def fetchMockStock_try_def fetchWithTimeout_eq Let_def)
      next
        case (BodySettles d res)
        show ?thesis
        proof (cases res)
          case (Inl e)
          with Settles True Responds BodySettles show ?thesis
            by (simp add: exceptional_def fetchMockStock_try_def fetchWithTimeout_eq Let_def)
        next
          case (Inr repo)
          from try_parsed [OF Settles [unfolded Responds] True BodySettles [unfolded Inr]]
            Settles True Responds BodySettles Inr
          show ?thesis
            by (simp add: exceptional_def)
        qed
      qed
    qed
  qed
qed

text \<open>
  Claim C6, amended. The upstream call ends in an exception in these cases and no other:
  \<open>fetch\<close> is aborted because the upstream has not settled within 2000 ms or never
  settles, \<open>fetch\<close> rejects with a network error, \<open>response.json()\<close> throws, the body
  is \<open>null\<close>, or one of the two counts has no primitive value (an object with a member
  \<open>toString\<close> of its own, or an array that holds one).
  On every exception the provider returns the placeholder of \<open>simulateStock\<close>: each of
  the three items is in stock exactly when its own draw of \<open>Math.random()\<close>, the next
  three in order, is greater than 0.5, and nothing of the failed call enters the flags. A
  call that ends without exception returns the items derived from the payload, whatever
  the payload holds, and makes no draw.
\<close>

theorem placeholder_on_exception:
  "((\<exists>e w1. fetchMockStock_try w = Some (Inl e, w1)) \<longleftrightarrow> exceptional (net w (calls w))) \<and>
   (\<forall>e w1. fetchMockStock_try w = Some (Inl e, w1) \<longrightarrow>
      fetchMockStock w = Some (simulateStock w1) \<and>
      map inStock (fst (simulateStock w1)) =
        [rand w (draws w) > 1/2, rand w (draws w + 1) > 1/2, rand w (draws w + 2) > 1/2] \<and>
      draws (snd (simulateStock w1)) = draws w + 3) \<and>
   (\<forall>its w1. fetchMockStock_try w = Some (Inr its, w1) \<longrightarrow>
      fetchMockStock w = Some (its, w1) \<and> draws w1 = draws w)"
proof -
  have "fetchMockStock w = Some (simulateStock w1) \<and>
      map inStock (fst (simulateStock w1)) =
        [rand w (draws w) > 1/2, rand w (draws w + 1) > 1/2, rand w (draws w + 2) > 1/2] \<and>
      draws (snd (simulateStock w1)) = draws w + 3"
    if "fetchMockStock_try w = Some (Inl e, w1)" for e w1
    using that try_frame [OF that] by (simp add: fetchMockStock_def simulateStock_eq)
  moreover have "fetchMockStock w = Some (its, w1) \<and> draws w1 = draws w"
    if "fetchMockStock_try w = Some (Inr its, w1)" for its w1
    using that try_frame [OF that] by (simp add: fetchMockStock_def)
  ultimately show ?thesis
    using try_raises_iff by blast
qed

theorem placeholder_on_exception_witness:
  "exceptional (net (world0 Never (3/4)) (calls (world0 Never (3/4)))) \<and>
   map_option (\<lambda>r. map inStock (fst r)) (fetchMockStock (world0 Never (3/4))) =
     Some [True, True, True] \<and>
   exceptional (net (world0 (replies 200 (JObj [(''stargazers_count'',
     JObj [(''toString'', JNum (Integral 0))])])) (1/4))
     (calls (world0 (replies 200 (JObj [(''stargazers_count'',
     JObj [(''toString'', JNum (Integral 0))])])) (1/4)))) \<and>
   map_option (\<lambda>r. map inStock (fst r)) (fetchMockStock (world0 (replies 200
     (JObj [(''stargazers_count'', JObj [(''toString'', JNum (Integral 0))])])) (1/4))) =
     Some [False, False, False]"
proof -
  define W where "W = world0 Never (3/4)"
  define V where "V = world0 (replies 200
     (JObj [(''stargazers_count'', JObj [(''toString'', JNum (Integral 0))])])) (1/4)"
  have xw: "exceptional (net W (calls W))"
    by (simp add: W_def world0_def exceptional_def)
  have xv: "exceptional (net V (calls V))"
    by (simp add: V_def sample_defs exceptional_def)
  from xw placeholder_on_exception [of W] obtain e w1 where
    tw: "fetchMockStock_try W = Some (Inl e, w1)"
    by blast
  from tw placeholder_on_exception [of W] have
    "fetchMockStock W = Some (simulateStock w1)"
    "map inStock (fst (simulateStock w1)) =
       [rand W (draws W) > 1/2, rand W (draws W + 1) > 1/2, rand W (draws W + 2) > 1/2]"
    by blast+
  then have fw: "map_option (\<lambda>r. map inStock (fst r)) (fetchMockStock W) =
      Some [True, True, True]"
    by (simp add: W_def world0_def)
  from xv placeholder_on_exception [of V] obtain e' v1 where
    tv: "fetchMockStock_try V = Some (Inl e', v1)"
    by blast
  from tv placeholder_on_exception [of V] have
    "fetchMockStock V = Some (simulateStock v1)"
    "map inStock (fst (simulateStock v1)) =
       [rand V (draws V) > 1/2, rand V (draws V + 1) > 1/2, rand V (draws V + 2) > 1/2]"
    by blast+
  then have fv: "map_option (\<lambda>r. map inStock (fst r)) (fetchMockStock V) =
      Some [False, False, False]"
    by (simp add: V_def world0_def)
  from xw fw xv fv show ?thesis
    by (simp add: W_def V_def)
qed

text \<open>
  As first stated the claim sends every non-numeric payload to the placeholder. A body
  that parses as JSON and whose counts are strings raises no exception: both remainders
  are NaN and the flags are false, false, true. The error body of a 403 response has
  neither count, and the flags are true, false, true. In both cases
  \<open>Math.random()\<close> is not called, whatever the draws would have been.
\<close>

theorem placeholder_counterexample:
  "map_option (\<lambda>r. (map inStock (fst r), draws (snd r))) (fetchMockStock (world0 (replies 200
     (JObj [(''stargazers_count'', JStr ''many''), (''open_issues_count'', JStr ''few'')]))
     (3/4))) = Some ([False, False, True], 0) \<and>
   map_option (\<lambda>r. (map inStock (fst r), draws (snd r))) (fetchMockStock
     (world0 (replies 403 (JObj [(''message'', JStr ''API rate limit exceeded'')])) (3/4))) =
     Some ([True, False, True], 0) \<and>
   map_option (\<lambda>r. (map inStock (fst r), draws (snd r))) (fetchMockStock
     (world0 (replies 403 (JObj [(''message'', JStr ''API rate limit exceeded'')])) (1/4))) =
     Some ([True, False, True], 0)"
  by (simp add: provider_defs world0_def replies_def)

section \<open>Properties of the endpoints\<close>

subsection \<open>Logs\<close>

lemma served_append: "served (xs @ ys) = served xs @ served ys"
  by (induction xs rule: served.induct) simp_all

lemma written_append: "written (xs @ ys) = written xs @ written ys"
  by (induction xs rule: written.induct) simp_all

lemma after_close_append:
  "after_close (xs @ ys) =
     (if Disconnected \<in> set xs then after_close xs @ ys else after_close ys)"
  by (induction xs rule: after_close.induct) simp_all

text \<open>The sample response: provided, served once, streamed to a client that has left.\<close>

lemma sample_provider:
  "fetchMockStock (world0 (replies 200 (counts 4 5)) r) =
     Some (items sample_snapshot,
       (world0 (replies 200 (counts 4 5)) r)
         \<lparr>reads := 1, calls := 1, next_timer := 1, waited := 125,
          trace := [SetTimeout 0 2000, Fetch repo_url ''gag-stock-clone'', ClearTimeout 0]\<rparr>)"
  by (simp add: provider_defs sample_defs sample_snapshot_def)

lemma sample_api_stock:
  "map_option fst (api_stock (world0 (replies 200 (counts 4 5)) r)) =
     Some \<lparr>code = 200, sent = sample_snapshot\<rparr>"
  by (simp add: api_stock_def sample_provider date_now_def)
    (simp add: world0_def sample_snapshot_def)

lemma sample_stream:
  "out (fst (run [Close, ProviderSettled] (api_stock_stream, world0 (replies 200 (counts 4 5)) r))) =
     [Head 200, ProviderCalled, Disconnected, Write (Text stock_line),
      Write (Data sample_snapshot), Sleep 10000]"
  by (simp add: api_stock_stream_def tick_def sample_provider date_now_def)
    (simp add: world0_def sample_snapshot_def)


subsection \<open>Timestamps\<close>

text \<open>
  A snapshot is stamped by two successive reads of the clock: the last read of the
  provider gives \<open>lastSeen\<close> of all three items, the next read gives \<open>updatedAt\<close>.
\<close>

lemma snapshot_stamp:
  assumes "fetchMockStock w = Some (its, w1)" and "date_now w1 = (t, w2)"
  shows "clock w2 = clock w \<and> net w2 = net w \<and>
    (\<exists>k. map lastSeen its = replicate 3 (clock w k) \<and> t = clock w (Suc k))"
proof -
  from fetchMockStock_stamp [OF assms(1)] have
    clk: "clock w1 = clock w" and nt: "net w1 = net w" and lt: "reads w < reads w1" and
    st: "map lastSeen its = replicate 3 (clock w (reads w1 - 1))"
    by simp_all
  from assms(2) clk nt have "clock w2 = clock w" and "net w2 = net w"
    and "t = clock w (reads w1)"
    by (auto simp: date_now_def)
  moreover from lt have "reads w1 = Suc (reads w1 - 1)"
    by simp
  ultimately show ?thesis
    using st by metis
qed


lemma step_stamp:
  assumes "clock w = clk"
    and "\<forall>p\<in>set (served (out c)).
           \<exists>k. map lastSeen (items p) = replicate 3 (clk k) \<and> updatedAt p = clk (Suc k)"
    and "step e (c, w) = (c', w')"
  shows "clock w' = clk \<and>
    (\<forall>p\<in>set (served (out c')).
       \<exists>k. map lastSeen (items p) = replicate 3 (clk k) \<and> updatedAt p = clk (Suc k))"
proof (cases e)
  case Close
  with assms show ?thesis
    by (auto simp: served_append)
next
  case TimerElapsed
  with assms show ?thesis
    by (auto simp: tick_def served_append split: if_splits)
next
  case ProviderSettled
  show ?thesis
  proof (cases "phase c = AwaitProvider \<and> fetchMockStock w \<noteq> None")
    case False
    then have "step ProviderSettled (c, w) = (c, w)"
      by (cases "fetchMockStock w") auto
    with ProviderSettled assms show ?thesis
      by simp
  next
    case True
    then obtain its w1 where f: "fetchMockStock w = Some (its, w1)"
      by auto
    obtain t w2 where d: "date_now w1 = (t, w2)"
      by (cases "date_now w1")
    from snapshot_stamp [OF f d] assms(1) have
      "clock w2 = clk" and
      "\<exists>k. map lastSeen its = replicate 3 (clk k) \<and> t = clk (Suc k)"
      by auto
    moreover from True ProviderSettled assms(3) f d have
      "w' = w2" and "served (out c') = served (out c) @ [\<lparr>updatedAt = t, items = its\<rparr>]"
      by (auto simp: served_append)
    ultimately show ?thesis
      using assms(2) by auto
  qed
qed

lemma run_stamp:
  assumes "clock w = clk"
    and "\<forall>p\<in>set (served (out c)).
           \<exists>k. map lastSeen (items p) = replicate 3 (clk k) \<and> updatedAt p = clk (Suc k)"
  shows "\<forall>p\<in>set (served (out (fst (run evs (c, w))))).
           \<exists>k. map lastSeen (items p) = replicate 3 (clk k) \<and> updatedAt p = clk (Suc k)"
  using assms
proof (induction evs arbitrary: c w)
  case Nil
  then show ?case by simp
next
  case (Cons e evs)
  obtain c' w' where s: "step e (c, w) = (c', w')"
    by (cases "step e (c, w)")
  from step_stamp [OF Cons.prems s] Cons.IH [of w' c'] s show ?case
    by simp
qed

lemma api_stock_stamp:
  assumes "api_stock w = Some (r, w2)"
  shows "\<exists>k. map lastSeen (items (sent r)) = replicate 3 (clock w k) \<and>
       updatedAt (sent r) = clock w (Suc k)"
proof -
  from assms obtain its w1 where f: "fetchMockStock w = Some (its, w1)"
    and r: "r = \<lparr>code = 200, sent = \<lparr>updatedAt = clock w1 (reads w1), items = its\<rparr>\<rparr>"
    by (auto simp: api_stock_Some)
  have d: "date_now w1 = (clock w1 (reads w1), w1\<lparr>reads := Suc (reads w1)\<rparr>)"
    by (simp add: date_now_def)
  from snapshot_stamp [OF f d] obtain k where
    "map lastSeen its = replicate 3 (clock w k)" and "clock w1 (reads w1) = clock w (Suc k)"
    by blast
  with r show ?thesis
    by auto
qed

lemma stream_stamp:
  "\<forall>p\<in>set (served (out (fst (run evs (api_stock_stream, w))))).
     \<exists>k. map lastSeen (items p) = replicate 3 (clock w k) \<and> updatedAt p = clock w (Suc k)"
  by (rule run_stamp) (simp_all add: api_stock_stream_def tick_def)


text \<open>
  Claim C4, amended. In every snapshot served by either endpoint, the one-shot response
  and each streamed event, the three items carry one and the same \<open>lastSeen\<close>, the reading
  of one clock read; \<open>updatedAt\<close> is the reading of the next clock read, so the two are
  equal exactly when both reads return the same instant.
\<close>

theorem lastSeen_shared:
  "(\<forall>r w2. api_stock w = Some (r, w2) \<longrightarrow>
      (\<exists>k. map lastSeen (items (sent r)) = replicate 3 (clock w k) \<and>
           updatedAt (sent r) = clock w (Suc k))) \<and>
   (\<forall>p\<in>set (served (out (fst (run evs (api_stock_stream, w))))).
      \<exists>k. map lastSeen (items p) = replicate 3 (clock w k) \<and> updatedAt p = clock w (Suc k))"
  using api_stock_stamp stream_stamp by blast

theorem lastSeen_shared_witness:
  "map_option (\<lambda>r. sent (fst r)) (api_stock (world0 (replies 200 (counts 4 5)) (1/4))) =
     Some sample_snapshot \<and>
   sample_snapshot \<in> set (served (out (fst (run [Close, ProviderSettled]
       (api_stock_stream, world0 (replies 200 (counts 4 5)) (1/4)))))) \<and>
   (\<exists>k. map lastSeen (items sample_snapshot) =
          replicate 3 (clock (world0 (replies 200 (counts 4 5)) (1/4)) k) \<and>
        updatedAt sample_snapshot = clock (world0 (replies 200 (counts 4 5)) (1/4)) (Suc k))"
proof -
  have a: "map_option (\<lambda>r. sent (fst r)) (api_stock (world0 (replies 200 (counts 4 5)) (1/4))) =
     Some sample_snapshot"
    using sample_api_stock [of "1/4"] by (auto simp: map_option_case split: option.splits)
  have b: "sample_snapshot \<in> set (served (out (fst (run [Close, ProviderSettled]
       (api_stock_stream, world0 (replies 200 (counts 4 5)) (1/4))))))"
    unfolding sample_stream by simp
  with a lastSeen_shared
    [of "world0 (replies 200 (counts 4 5)) (1/4)" "[Close, ProviderSettled]"]
  show ?thesis
    by blast
qed

text \<open>
  As first stated, with \<open>lastSeen\<close> equal to \<open>updatedAt\<close>, the claim fails as soon as the
  clock advances between the two reads: the items are stamped 1000, the snapshot 1001.
\<close>

theorem lastSeen_shared_counterexample:
  "map_option (\<lambda>r. (map lastSeen (items (sent (fst r))), updatedAt (sent (fst r))))
     (api_stock (world0 (replies 200 (counts 4 5)) (1/4))) =
     Some ([1000, 1000, 1000], 1001)"
  using sample_api_stock [of "1/4"]
  by (auto simp: map_option_case sample_snapshot_def split: option.splits)

subsection \<open>Disconnects\<close>

lemma step_close_inv:
  assumes "close_inv c" and "step e (c, w) = (c', w')"
  shows "close_inv c'"
proof (cases e)
  case Close
  with assms show ?thesis
    by (auto simp: close_inv_def after_close_append written_append split: if_splits)
next
  case TimerElapsed
  with assms show ?thesis
    by (auto simp: close_inv_def tick_def after_close_append written_append
        split: if_splits)
next
  case ProviderSettled
  with assms show ?thesis
    by (auto simp: close_inv_def after_close_append written_append split_beta Let_def
        split: if_splits option.splits)
qed

lemma run_close_inv:
  assumes "close_inv c"
  shows "close_inv (fst (run evs (c, w)))"
  using assms
proof (induction evs arbitrary: c w)
  case Nil
  then show ?case by simp
next
  case (Cons e evs)
  obtain c' w' where s: "step e (c, w) = (c', w')"
    by (cases "step e (c, w)")
  from step_close_inv [OF Cons.prems s] Cons.IH [of c' w'] s show ?case
    by simp
qed

text \<open>
  Claim C5, amended. For every subscription the closure of the channel is checked once
  per iteration, at the head of the loop, before the call of the provider and not before
  the writes. After the channel has signalled closure no further call of the provider is
  started, and at most one more event (two chunks, the result of the call that was pending
  when the client left) is written to the closed channel.
\<close>

theorem no_call_after_close:
  "ProviderCalled \<notin> set (after_close (out (fst (run evs (api_stock_stream, w))))) \<and>
   length (written (after_close (out (fst (run evs (api_stock_stream, w)))))) \<le> 2"
proof -
  have "close_inv api_stock_stream"
    by (simp add: close_inv_def api_stock_stream_def tick_def)
  from run_close_inv [OF this, of evs w] show ?thesis
    by (simp add: close_inv_def)
qed

theorem no_call_after_close_witness:
  "ProviderCalled \<notin> set (after_close (out (fst (run [Close, ProviderSettled]
      (api_stock_stream, world0 (replies 200 (counts 4 5)) (1/4)))))) \<and>
   length (written (after_close (out (fst (run [Close, ProviderSettled]
      (api_stock_stream, world0 (replies 200 (counts 4 5)) (1/4))))))) = 2"
  using no_call_after_close [of "[Close, ProviderSettled]" "world0 (replies 200 (counts 4 5)) (1/4)"]
  unfolding sample_stream by simp

text \<open>
  As first stated, with the check before each write and no write after closure, the claim
  fails: a client that leaves while the call of the provider is pending is still sent the
  event of that call.
\<close>

theorem write_after_close_counterexample:
  "written (after_close (out (fst (run [Close, ProviderSettled]
      (api_stock_stream, world0 (replies 200 (counts 4 5)) (1/4)))))) =
     [Text stock_line, Data sample_snapshot]"
  unfolding sample_stream by simp

subsection \<open>The cycle of an open connection\<close>













subsection \<open>Order of the two timestamps\<close>



end
